theory Spec2Isabelle
  imports Complex_Main "HOL-Library.Product_Lexorder"
begin

section \<open>Strings: the operations of \<^verbatim>\<open>str\<close> that build\_data.py uses\<close>

text \<open>
  The decoded CSV text is a \<^typ>\<open>string\<close> of ASCII characters. \<^verbatim>\<open>str.strip()\<close>,
  \<^verbatim>\<open>int()\<close> and \<^verbatim>\<open>float()\<close> remove the characters for which
  \<^verbatim>\<open>str.isspace()\<close> holds; in ASCII these are 0x09-0x0D, 0x1C-0x1F and the blank.
\<close>

definition isspace :: "char \<Rightarrow> bool" where
  "isspace c = (c \<in> set [CHR 0x09, CHR 0x0A, CHR 0x0B, CHR 0x0C, CHR 0x0D,
                           CHR 0x1C, CHR 0x1D, CHR 0x1E, CHR 0x1F, CHR 0x20])"

definition strip :: "string \<Rightarrow> string" where
  "strip s = rev (dropWhile isspace (rev (dropWhile isspace s)))"

text \<open>\<^verbatim>\<open>s.split(sep)\<close> for a one-character separator: never the empty list.\<close>

fun split_on :: "char \<Rightarrow> string \<Rightarrow> string list" where
  "split_on sep [] = [[]]"
| "split_on sep (c # cs) =
     (if c = sep then [] # split_on sep cs
      else (case split_on sep cs of [] \<Rightarrow> [[c]] | p # ps \<Rightarrow> (c # p) # ps))"

definition startswith :: "string \<Rightarrow> string \<Rightarrow> bool" where
  "startswith s p = (take (length p) s = p)"

text \<open>\<^verbatim>\<open>sub in s\<close>: \<open>sub\<close> occurs in \<open>s\<close> as a contiguous run.\<close>

fun contains :: "string \<Rightarrow> string \<Rightarrow> bool" where
  "contains [] sub = (sub = [])"
| "contains (c # cs) sub = (startswith (c # cs) sub \<or> contains cs sub)"

text \<open>Python's slice \<^verbatim>\<open>xs[a:b]\<close> for \<open>0 \<le> a\<close>, \<open>0 \<le> b\<close>.\<close>

definition slice :: "'a list \<Rightarrow> nat \<Rightarrow> nat \<Rightarrow> 'a list" where
  "slice xs a b = drop a (take b xs)"

section \<open>Numbers: \<^verbatim>\<open>int()\<close>, \<^verbatim>\<open>float()\<close>, float arithmetic and \<^verbatim>\<open>round()\<close>\<close>

definition digit_of :: "char \<Rightarrow> nat option" where
  "digit_of c = map_of [(CHR ''0'', 0), (CHR ''1'', 1), (CHR ''2'', 2), (CHR ''3'', 3),
     (CHR ''4'', 4), (CHR ''5'', 5), (CHR ''6'', 6), (CHR ''7'', 7), (CHR ''8'', 8),
     (CHR ''9'', 9)] c"

definition isdigit :: "char \<Rightarrow> bool" where
  "isdigit c = (digit_of c \<noteq> None)"

text \<open>The value of a run of decimal digits, most significant first.\<close>

definition digits_value :: "string \<Rightarrow> nat" where
  "digits_value ds = foldl (\<lambda>acc c. 10 * acc + the (digit_of c)) 0 ds"

text \<open>
  CPython reads a number with underscores by checking that every underscore stands
  between two digits and then dropping the underscores. \<open>prev\<close> is the character
  before the one being read (NUL at the start).
\<close>

fun drop_underscores :: "char \<Rightarrow> string \<Rightarrow> string option" where
  "drop_underscores prev [] = (if prev = CHR ''_'' then None else Some [])"
| "drop_underscores prev (c # cs) =
     (if c = CHR ''_'' then (if isdigit prev then drop_underscores c cs else None)
      else if prev = CHR ''_'' \<and> \<not> isdigit c then None
      else map_option ((#) c) (drop_underscores c cs))"

text \<open>An optional sign: the flag says whether it was a minus.\<close>

fun take_sign :: "string \<Rightarrow> bool \<times> string" where
  "take_sign [] = (False, [])"
| "take_sign (c # cs) =
     (if c = CHR ''-'' then (True, cs) else if c = CHR ''+'' then (False, cs)
      else (False, c # cs))"

text \<open>
  \<^verbatim>\<open>int(s)\<close> in base 10: surrounding white space, an optional sign, then decimal
  digits with single underscores between digits. \<open>None\<close> is the \<^verbatim>\<open>ValueError\<close>.
\<close>

definition py_int :: "string \<Rightarrow> int option" where
  "py_int s =
     (case drop_underscores (CHR 0x00) (snd (take_sign (strip s))) of
        None \<Rightarrow> None
      | Some ds \<Rightarrow>
          if ds \<noteq> [] \<and> list_all isdigit ds
          then Some (if fst (take_sign (strip s)) then - int (digits_value ds)
                     else int (digits_value ds))
          else None)"

text \<open>
  A binary64 value. A finite value is modelled by the rational number it denotes, and
  arithmetic on finite values is exact: the rounding error and the overflow of binary64
  arithmetic, and the sign of zero, are not modelled.
\<close>

datatype pyfloat = Finite rat | PInf | NInf | NaN

definition lower :: "char \<Rightarrow> char" where
  "lower c = (case map_of [(CHR ''A'', CHR ''a''), (CHR ''F'', CHR ''f''),
       (CHR ''I'', CHR ''i''), (CHR ''N'', CHR ''n''), (CHR ''T'', CHR ''t''),
       (CHR ''Y'', CHR ''y'')] c of None \<Rightarrow> c | Some d \<Rightarrow> d)"

text \<open>
  The decimal part of a float literal: digits, an optional point and more digits (a
  digit on at least one side), an optional exponent with at least one digit.
\<close>

definition parse_exponent :: "string \<Rightarrow> int option" where
  "parse_exponent r =
     (case r of
        [] \<Rightarrow> Some 0
      | e # r' \<Rightarrow>
          if e = CHR ''e'' \<or> e = CHR ''E'' then
            (let (neg, ds) = take_sign r' in
             if ds \<noteq> [] \<and> list_all isdigit ds
             then Some (if neg then - int (digits_value ds) else int (digits_value ds))
             else None)
          else None)"

definition pow10 :: "int \<Rightarrow> rat" where
  "pow10 k = (if 0 \<le> k then 10 ^ nat k else 1 / 10 ^ nat (- k))"

definition parse_decimal :: "string \<Rightarrow> rat option" where
  "parse_decimal body =
     (let ip = takeWhile isdigit body;
          r1 = dropWhile isdigit body;
          fp = (case r1 of [] \<Rightarrow> [] | c # r \<Rightarrow> if c = CHR ''.'' then takeWhile isdigit r else []);
          r2 = (case r1 of [] \<Rightarrow> [] | c # r \<Rightarrow> if c = CHR ''.'' then dropWhile isdigit r else r1)
      in if ip = [] \<and> fp = [] then None
         else (case parse_exponent r2 of
                 None \<Rightarrow> None
               | Some ex \<Rightarrow>
                   Some (of_nat (digits_value (ip @ fp)) * pow10 (ex - int (length fp)))))"

text \<open>
  \<^verbatim>\<open>float(s)\<close>: surrounding white space, underscores between digits, an optional
  sign, then \<^verbatim>\<open>inf\<close>, \<^verbatim>\<open>infinity\<close> or \<^verbatim>\<open>nan\<close> in any case, or a decimal
  literal. \<open>None\<close> is the \<^verbatim>\<open>ValueError\<close>.
\<close>

definition py_float :: "string \<Rightarrow> pyfloat option" where
  "py_float s =
     (case drop_underscores (CHR 0x00) (strip s) of
        None \<Rightarrow> None
      | Some t \<Rightarrow>
          (let (neg, body) = take_sign t in
           if map lower body = ''inf'' \<or> map lower body = ''infinity''
           then Some (if neg then NInf else PInf)
           else if map lower body = ''nan'' then Some NaN
           else map_option (\<lambda>q. Finite (if neg then - q else q)) (parse_decimal body)))"

fun fneg :: "pyfloat \<Rightarrow> pyfloat" where
  "fneg (Finite a) = Finite (- a)"
| "fneg PInf = NInf"
| "fneg NInf = PInf"
| "fneg NaN = NaN"

fun fadd :: "pyfloat \<Rightarrow> pyfloat \<Rightarrow> pyfloat" where
  "fadd (Finite a) (Finite b) = Finite (a + b)"
| "fadd NaN y = NaN"
| "fadd x NaN = NaN"
| "fadd PInf NInf = NaN"
| "fadd NInf PInf = NaN"
| "fadd PInf y = PInf"
| "fadd NInf y = NInf"
| "fadd x PInf = PInf"
| "fadd x NInf = NInf"

definition fsub :: "pyfloat \<Rightarrow> pyfloat \<Rightarrow> pyfloat" where
  "fsub x y = fadd x (fneg y)"

text \<open>The sign of a product with an infinite factor; zero times infinity is NaN.\<close>

definition signed_inf :: "bool \<Rightarrow> pyfloat" where
  "signed_inf neg = (if neg then NInf else PInf)"

fun fmul :: "pyfloat \<Rightarrow> pyfloat \<Rightarrow> pyfloat" where
  "fmul (Finite a) (Finite b) = Finite (a * b)"
| "fmul NaN y = NaN"
| "fmul x NaN = NaN"
| "fmul (Finite a) PInf = (if a = 0 then NaN else signed_inf (a < 0))"
| "fmul (Finite a) NInf = (if a = 0 then NaN else signed_inf (0 < a))"
| "fmul PInf (Finite b) = (if b = 0 then NaN else signed_inf (b < 0))"
| "fmul NInf (Finite b) = (if b = 0 then NaN else signed_inf (0 < b))"
| "fmul PInf PInf = PInf"
| "fmul NInf NInf = PInf"
| "fmul PInf NInf = NInf"
| "fmul NInf PInf = NInf"

text \<open>
  Division by a finite non-zero constant; the source divides by the constant 100 only.
\<close>

definition fdiv :: "pyfloat \<Rightarrow> rat \<Rightarrow> pyfloat" where
  "fdiv x c = fmul x (Finite (1 / c))"

text \<open>
  \<^verbatim>\<open>round(x, n)\<close> for \<open>n \<ge> 0\<close>: the nearest multiple of \<open>10\<^sup>-\<^sup>n\<close>, a tie going to
  the even multiple; infinities and NaN pass through.
\<close>

definition round_half_even :: "rat \<Rightarrow> int" where
  "round_half_even q =
     (let f = \<lfloor>q\<rfloor>; d = q - of_int f
      in if d < 1 / 2 then f else if 1 / 2 < d then f + 1
         else if even f then f else f + 1)"

fun py_round :: "pyfloat \<Rightarrow> nat \<Rightarrow> pyfloat" where
  "py_round (Finite x) n = Finite (of_int (round_half_even (x * 10 ^ n)) / 10 ^ n)"
| "py_round x n = x"

section \<open>The monthly table: \<^verbatim>\<open>download_french_factors\<close>\<close>

text \<open>
  One row of the data frame. The three derived columns are functions of the row, as
  the source computes them from the row's own fields.
\<close>

record obs =
  year :: int
  month :: int
  mkt_rf :: pyfloat
  smb :: pyfloat
  hml :: pyfloat
  rf :: pyfloat

definition mkt_total :: "obs \<Rightarrow> pyfloat" where
  "mkt_total r = fadd (mkt_rf r) (rf r)"

definition small_total :: "obs \<Rightarrow> pyfloat" where
  "small_total r = fadd (fadd (mkt_rf r) (rf r)) (smb r)"

definition tbill :: "obs \<Rightarrow> pyfloat" where
  "tbill r = rf r"

datatype error = ValueError | KeyError | IndexError

text \<open>Python's truth value of an index that may be \<^verbatim>\<open>None\<close>: 0 is false.\<close>

fun truthy :: "nat option \<Rightarrow> bool" where
  "truthy None = False"
| "truthy (Some n) = (n \<noteq> 0)"

text \<open>The two tests of lines 43 and 45 on a line.\<close>

definition is_start_line :: "string \<Rightarrow> bool" where
  "is_start_line line = (startswith (strip line) ''192'' \<and> CHR '','' \<in> set line)"

definition is_end_line :: "string \<Rightarrow> bool" where
  "is_end_line line = (strip line = [] \<or> contains line ''Annual'')"

text \<open>
  The loop of lines 42-47 over \<^verbatim>\<open>enumerate(lines)\<close>, from index \<open>i\<close> on; the
  result is \<^verbatim>\<open>(start_idx, end_idx)\<close> when the loop ends or breaks.
\<close>

fun scan_lines :: "nat \<Rightarrow> string list \<Rightarrow> nat option \<Rightarrow> nat option \<times> nat option" where
  "scan_lines i [] start_idx = (start_idx, None)"
| "scan_lines i (line # rest) start_idx =
     (let start_idx' =
            (if is_start_line line \<and> start_idx = None then Some i else start_idx)
      in if truthy start_idx' \<and> is_end_line line \<and> the start_idx' + 10 < i
         then (start_idx', Some i)
         else scan_lines (i + 1) rest start_idx')"

text \<open>
  The body of the loop of lines 55-73 for one line: \<open>None\<close> when the line is skipped
  (fewer than 5 fields, a date token that is not 6 characters long, or a
  \<^verbatim>\<open>ValueError\<close> of \<^verbatim>\<open>int\<close> or \<^verbatim>\<open>float\<close>).
\<close>

definition parse_line :: "string \<Rightarrow> obs option" where
  "parse_line line =
     (let parts = split_on (CHR '','') (strip line) in
      if 5 \<le> length parts then
        (let ym = strip (parts ! 0) in
         if length ym \<noteq> 6 then None
         else
           (case py_int (take 4 ym) of None \<Rightarrow> None | Some y \<Rightarrow>
           (case py_int (take 2 (drop 4 ym)) of None \<Rightarrow> None | Some m \<Rightarrow>
           (case py_float (strip (parts ! 1)) of None \<Rightarrow> None | Some a \<Rightarrow>
           (case py_float (strip (parts ! 2)) of None \<Rightarrow> None | Some b \<Rightarrow>
           (case py_float (strip (parts ! 3)) of None \<Rightarrow> None | Some c \<Rightarrow>
           (case py_float (strip (parts ! 4)) of None \<Rightarrow> None | Some d \<Rightarrow>
              Some \<lparr>year = y, month = m, mkt_rf = a, smb = b, hml = c, rf = d\<rparr>)))))))
      else None)"

fun parse_records :: "string list \<Rightarrow> obs list" where
  "parse_records [] = []"
| "parse_records (line # rest) =
     (case parse_line line of
        None \<Rightarrow> parse_records rest
      | Some r \<Rightarrow> r # parse_records rest)"

text \<open>
  The function from the decoded text on (the download and the unzipping are outside
  the model). A data frame built from no record has no column, so that line 77 raises
  \<^verbatim>\<open>KeyError\<close>.
\<close>

definition monthly_lines :: "string list \<Rightarrow> nat \<Rightarrow> nat option \<Rightarrow> string list" where
  "monthly_lines lines s end_idx =
     slice lines s (if truthy end_idx then the end_idx else length lines)"

definition download_french_factors :: "string \<Rightarrow> error + obs list" where
  "download_french_factors raw =
     (let lines = split_on (CHR 0x0A) raw;
          (start_idx, end_idx) = scan_lines 0 lines None
      in case start_idx of
           None \<Rightarrow> Inl ValueError
         | Some s \<Rightarrow>
             (let records = parse_records (monthly_lines lines s end_idx)
              in if records = [] then Inl KeyError else Inr records))"

section \<open>Compounding: \<^verbatim>\<open>monthly_to_annual\<close>\<close>

text \<open>
  \<^verbatim>\<open>df.groupby("year")\<close>: one group per year, the years ascending, the rows of a
  group in the order of the frame.
\<close>

definition groupby_year :: "obs list \<Rightarrow> (int \<times> obs list) list" where
  "groupby_year df =
     map (\<lambda>y. (y, filter (\<lambda>r. year r = y) df)) (sort (remdups (map year df)))"

text \<open>Lines 91-94 for the values of one group.\<close>

definition compound :: "pyfloat list \<Rightarrow> pyfloat" where
  "compound vals =
     py_round
       (fmul (fsub (foldl (\<lambda>cum r. fmul cum (fadd (Finite 1) (fdiv r 100))) (Finite 1) vals)
                   (Finite 1))
             (Finite 100))
       2"

fun compound_groups :: "(obs \<Rightarrow> pyfloat) \<Rightarrow> (int \<times> obs list) list \<Rightarrow> (int \<times> pyfloat) list" where
  "compound_groups col [] = []"
| "compound_groups col ((y, grp) # rest) =
     (if length grp < 11 then compound_groups col rest
      else (y, compound (map col grp)) # compound_groups col rest)"

text \<open>The dictionary is the list of its items, in insertion order.\<close>

definition monthly_to_annual :: "obs list \<Rightarrow> (obs \<Rightarrow> pyfloat) \<Rightarrow> (int \<times> pyfloat) list" where
  "monthly_to_annual df col = compound_groups col (groupby_year df)"

section \<open>The static tables\<close>

definition get_bond_returns :: "(int \<times> pyfloat) list" where
  "get_bond_returns =
    [
     (1926, Finite (7.77)), (1927, Finite (8.93)), (1928, Finite (0.10)), (1929, Finite (3.42)),
     (1930, Finite (4.66)), (1931, Finite (- 5.31)), (1932, Finite (16.84)), (1933, Finite (- 0.07)),
     (1934, Finite (10.03)), (1935, Finite (4.98)), (1936, Finite (7.52)), (1937, Finite (0.23)),
     (1938, Finite (5.53)), (1939, Finite (5.94)), (1940, Finite (6.09)), (1941, Finite (0.93)),
     (1942, Finite (3.22)), (1943, Finite (2.08)), (1944, Finite (2.81)), (1945, Finite (10.73)),
     (1946, Finite (- 0.10)), (1947, Finite (- 2.63)), (1948, Finite (3.40)), (1949, Finite (6.45)),
     (1950, Finite (0.06)), (1951, Finite (- 3.94)), (1952, Finite (1.16)), (1953, Finite (3.64)),
     (1954, Finite (7.19)), (1955, Finite (- 1.30)), (1956, Finite (- 5.59)), (1957, Finite (7.46)),
     (1958, Finite (- 6.09)), (1959, Finite (- 2.26)), (1960, Finite (13.78)), (1961, Finite (0.97)),
     (1962, Finite (6.89)), (1963, Finite (1.21)), (1964, Finite (3.51)), (1965, Finite (0.71)),
     (1966, Finite (3.65)), (1967, Finite (- 9.18)), (1968, Finite (- 0.26)), (1969, Finite (- 5.07)),
     (1970, Finite (12.11)), (1971, Finite (13.23)), (1972, Finite (5.69)), (1973, Finite (- 1.11)),
     (1974, Finite (4.35)), (1975, Finite (9.20)), (1976, Finite (16.75)), (1977, Finite (- 0.69)),
     (1978, Finite (- 1.18)), (1979, Finite (- 1.23)), (1980, Finite (- 3.95)), (1981, Finite (1.86)),
     (1982, Finite (40.36)), (1983, Finite (0.65)), (1984, Finite (15.48)), (1985, Finite (30.97)),
     (1986, Finite (24.53)), (1987, Finite (- 2.71)), (1988, Finite (9.67)), (1989, Finite (18.11)),
     (1990, Finite (6.18)), (1991, Finite (19.30)), (1992, Finite (8.05)), (1993, Finite (18.24)),
     (1994, Finite (- 7.77)), (1995, Finite (31.67)), (1996, Finite (- 0.93)), (1997, Finite (15.85)),
     (1998, Finite (13.06)), (1999, Finite (- 8.96)), (2000, Finite (21.48)), (2001, Finite (3.70)),
     (2002, Finite (17.84)), (2003, Finite (1.45)), (2004, Finite (8.51)), (2005, Finite (7.81)),
     (2006, Finite (1.19)), (2007, Finite (9.88)), (2008, Finite (25.87)), (2009, Finite (- 14.90)),
     (2010, Finite (10.14)), (2011, Finite (33.97)), (2012, Finite (3.36)), (2013, Finite (- 12.76)),
     (2014, Finite (24.69)), (2015, Finite (0.84)), (2016, Finite (1.18)), (2017, Finite (2.80)),
     (2018, Finite (- 1.16)), (2019, Finite (14.23)), (2020, Finite (18.04)), (2021, Finite (- 4.42)),
     (2022, Finite (- 29.26)), (2023, Finite (3.98)), (2024, Finite (- 4.60)), (2025, Finite (1.50))
    ]"

definition get_inflation :: "(int \<times> pyfloat) list" where
  "get_inflation =
    [
     (1926, Finite (1.49)), (1927, Finite (- 1.72)), (1928, Finite (- 1.17)), (1929, Finite (0.20)),
     (1930, Finite (- 2.30)), (1931, Finite (- 8.98)), (1932, Finite (- 10.30)), (1933, Finite (- 5.11)),
     (1934, Finite (3.08)), (1935, Finite (2.24)), (1936, Finite (1.46)), (1937, Finite (3.60)),
     (1938, Finite (- 2.08)), (1939, Finite (- 1.42)), (1940, Finite (0.72)), (1941, Finite (5.00)),
     (1942, Finite (10.88)), (1943, Finite (6.13)), (1944, Finite (1.73)), (1945, Finite (2.27)),
     (1946, Finite (8.33)), (1947, Finite (14.36)), (1948, Finite (8.07)), (1949, Finite (- 1.03)),
     (1950, Finite (1.26)), (1951, Finite (7.88)), (1952, Finite (1.92)), (1953, Finite (0.75)),
     (1954, Finite (0.75)), (1955, Finite (- 0.37)), (1956, Finite (1.49)), (1957, Finite (3.31)),
     (1958, Finite (2.85)), (1959, Finite (0.69)), (1960, Finite (1.72)), (1961, Finite (1.01)),
     (1962, Finite (1.00)), (1963, Finite (1.32)), (1964, Finite (1.31)), (1965, Finite (1.61)),
     (1966, Finite (2.86)), (1967, Finite (3.09)), (1968, Finite (4.19)), (1969, Finite (5.46)),
     (1970, Finite (5.84)), (1971, Finite (4.30)), (1972, Finite (3.21)), (1973, Finite (6.22)),
     (1974, Finite (11.04)), (1975, Finite (9.13)), (1976, Finite (5.76)), (1977, Finite (6.50)),
     (1978, Finite (7.59)), (1979, Finite (11.22)), (1980, Finite (13.58)), (1981, Finite (10.35)),
     (1982, Finite (6.16)), (1983, Finite (3.21)), (1984, Finite (4.32)), (1985, Finite (3.56)),
     (1986, Finite (1.86)), (1987, Finite (3.74)), (1988, Finite (4.01)), (1989, Finite (4.83)),
     (1990, Finite (5.40)), (1991, Finite (4.21)), (1992, Finite (3.03)), (1993, Finite (2.96)),
     (1994, Finite (2.61)), (1995, Finite (2.81)), (1996, Finite (2.93)), (1997, Finite (2.34)),
     (1998, Finite (1.55)), (1999, Finite (2.19)), (2000, Finite (3.38)), (2001, Finite (2.83)),
     (2002, Finite (1.59)), (2003, Finite (2.27)), (2004, Finite (2.68)), (2005, Finite (3.39)),
     (2006, Finite (3.23)), (2007, Finite (2.85)), (2008, Finite (3.84)), (2009, Finite (- 0.36)),
     (2010, Finite (1.64)), (2011, Finite (3.16)), (2012, Finite (2.07)), (2013, Finite (1.46)),
     (2014, Finite (1.62)), (2015, Finite (0.12)), (2016, Finite (1.26)), (2017, Finite (2.13)),
     (2018, Finite (2.44)), (2019, Finite (1.81)), (2020, Finite (1.23)), (2021, Finite (4.70)),
     (2022, Finite (8.00)), (2023, Finite (4.12)), (2024, Finite (2.90)), (2025, Finite (2.80))
    ]"

section \<open>Alignment and assembly: \<^verbatim>\<open>main\<close>\<close>

definition keys :: "('k \<times> 'v) list \<Rightarrow> 'k set" where
  "keys d = set (map fst d)"

definition large_stocks :: "obs list \<Rightarrow> (int \<times> pyfloat) list" where
  "large_stocks ff = monthly_to_annual ff mkt_total"

definition small_stocks :: "obs list \<Rightarrow> (int \<times> pyfloat) list" where
  "small_stocks ff = monthly_to_annual ff small_total"

definition tbills :: "obs list \<Rightarrow> (int \<times> pyfloat) list" where
  "tbills ff = monthly_to_annual ff tbill"

definition bonds :: "(int \<times> pyfloat) list" where
  "bonds = get_bond_returns"

definition inflation :: "(int \<times> pyfloat) list" where
  "inflation = get_inflation"

text \<open>Line 177.\<close>

definition all_years :: "obs list \<Rightarrow> int list" where
  "all_years ff =
     sorted_list_of_set (keys (large_stocks ff) \<inter> keys bonds \<inter> keys inflation)"

text \<open>
  \<^verbatim>\<open>ff.sort_values(["year", "month"])\<close>: a stable sort on the pair.
\<close>

definition sort_values :: "obs list \<Rightarrow> obs list" where
  "sort_values ff = sort_key (\<lambda>r. (year r, month r)) ff"

function str_nat :: "nat \<Rightarrow> string" where
  "str_nat n =
     (if n < 10 then [''0123456789'' ! n]
      else str_nat (n div 10) @ [''0123456789'' ! (n mod 10)])"
  by pat_completeness auto
termination
  by (relation "measure id") auto

definition str_int :: "int \<Rightarrow> string" where
  "str_int i = (if i < 0 then CHR ''-'' # str_nat (nat (- i)) else str_nat (nat i))"

text \<open>The format \<^verbatim>\<open>02d\<close>: zeros up to width 2, the sign counted in the width.\<close>

definition fmt_02d :: "int \<Rightarrow> string" where
  "fmt_02d i =
     (if i < 0 then CHR ''-'' # replicate (1 - length (str_nat (nat (- i)))) (CHR ''0'')
                      @ str_nat (nat (- i))
      else replicate (2 - length (str_nat (nat i))) (CHR ''0'') @ str_nat (nat i))"

definition monthly_dates :: "obs list \<Rightarrow> string list" where
  "monthly_dates ff = map (\<lambda>row. str_int (year row) @ ''-'' @ fmt_02d (month row)) (sort_values ff)"

definition monthly_stocks :: "obs list \<Rightarrow> pyfloat list" where
  "monthly_stocks ff = map (\<lambda>row. py_round (mkt_total row) 3) (sort_values ff)"

definition monthly_tbills :: "obs list \<Rightarrow> pyfloat list" where
  "monthly_tbills ff = map (\<lambda>row. py_round (tbill row) 3) (sort_values ff)"

record monthly_data =
  dates :: "string list"
  stocks :: "pyfloat list"
  bills :: "pyfloat list"

record asset =
  name :: string
  short :: string
  description :: string
  returns :: "pyfloat option list"

record dataset =
  generated :: string
  years :: "int list"
  monthly :: monthly_data
  assets :: "(string \<times> asset) list"

text \<open>
  The dictionary of step 5; \<open>today\<close> is the date of the run. The field \<open>bills\<close> is
  the key \<^verbatim>\<open>tbills\<close> of the \<^verbatim>\<open>monthly\<close> object.
\<close>

definition data :: "string \<Rightarrow> obs list \<Rightarrow> dataset" where
  "data today ff =
     \<lparr>generated = today,
      years = all_years ff,
      monthly = \<lparr>dates = monthly_dates ff, stocks = monthly_stocks ff,
                 bills = monthly_tbills ff\<rparr>,
      assets =
        [(''large_stocks'',
          \<lparr>name = ''Large Company Stocks'', short = ''Large Stocks'',
           description = ''S&P 500 total return (dividends reinvested)'',
           returns = map (map_of (large_stocks ff)) (all_years ff)\<rparr>),
         (''small_stocks'',
          \<lparr>name = ''Small Company Stocks'', short = ''Small Stocks'',
           description = ''Small-cap total return (Fama-French SMB + market)'',
           returns = map (map_of (small_stocks ff)) (all_years ff)\<rparr>),
         (''lt_gov_bonds'',
          \<lparr>name = ''Long-Term Government Bonds'', short = ''LT Gov Bonds'',
           description = ''Long-term U.S. Treasury bond total return'',
           returns = map (map_of bonds) (all_years ff)\<rparr>),
         (''tbills'',
          \<lparr>name = ''U.S. Treasury Bills'', short = ''T-Bills'',
           description = ''Short-term Treasury bill return (risk-free rate)'',
           returns = map (map_of (tbills ff)) (all_years ff)\<rparr>),
         (''inflation'',
          \<lparr>name = ''Inflation (CPI)'', short = ''Inflation'',
           description = ''Consumer Price Index annual change'',
           returns = map (map_of inflation) (all_years ff)\<rparr>)]\<rparr>"

text \<open>
  The run from the decoded text to the document that is written. Line 178 reads
  \<^verbatim>\<open>all_years[0]\<close>, which raises \<^verbatim>\<open>IndexError\<close> on the empty list; the
  summary of lines 236-241 divides by the number of returns that are not
  \<^verbatim>\<open>None\<close>, which is the number of years and so not zero once line 178 has passed.
  \<open>Inr\<close> is the document passed to \<^verbatim>\<open>json.dump\<close>.
\<close>

definition main :: "string \<Rightarrow> string \<Rightarrow> error + dataset" where
  "main today raw =
     (case download_french_factors raw of
        Inl e \<Rightarrow> Inl e
      | Inr ff \<Rightarrow> if all_years ff = [] then Inl IndexError else Inr (data today ff))"

section \<open>The specification's wording, for comparison\<close>

text \<open>
  The start test as the specification words it: the line, without leading white space,
  starts with 19 or 20 and the line contains a delimiter.
\<close>

definition spec_is_start_line :: "string \<Rightarrow> bool" where
  "spec_is_start_line line =
     ((startswith (strip line) ''19'' \<or> startswith (strip line) ''20'') \<and>
      CHR '','' \<in> set line)"




section \<open>Sample inputs\<close>

text \<open>A text is the lines of a file, each ended by a line feed.\<close>

definition join_lines :: "string list \<Rightarrow> string" where
  "join_lines ls = concat (map (\<lambda>l. l @ [CHR 0x0A]) ls)"

text \<open>
  A small factor file: two header lines, the last month of 1926, eleven months of
  1927, a blank line and the annual section.
\<close>

definition sample_lines :: "string list" where
  "sample_lines =
    [''Monthly factors'',
     '',Mkt-RF,SMB,HML,RF'',
     ''192612, 2.6204, -0.12, -0.05, 0.2803'',
     ''192701,-0.06,-0.37,4.54,0.25'',
     ''192702,4.18,0.04,2.94,0.26'',
     ''192703,0.13,-1.65,-2.61,0.30'',
     ''192704,0.46,0.30,0.81,0.25'',
     ''192705,5.44,1.53,4.73,0.30'',
     ''192706,-2.34,0.59,-1.73,0.26'',
     ''192707,7.26,-3.23,-1.14,0.30'',
     ''192708,1.97,-0.73,-3.78,0.28'',
     ''192709,4.76,-3.61,-0.69,0.21'',
     ''192710,-4.31,2.11,-4.33,0.25'',
     ''192711,6.58,2.71,-0.31,0.21'',
     '''',
     '' Annual Factors: January-December'',
     ''  1927,   29.47,   -2.46,   -3.75,    3.12'']"

definition sample_raw :: string where
  "sample_raw = join_lines sample_lines"

text \<open>The twelve monthly rows of the sample.\<close>

definition sample_ff :: "obs list" where
  "sample_ff =
    [\<lparr>year = 1926, month = 12, mkt_rf = Finite 2.6204, smb = Finite (- 0.12),
       hml = Finite (- 0.05), rf = Finite 0.2803\<rparr>,
     \<lparr>year = 1927, month = 1, mkt_rf = Finite (- 0.06), smb = Finite (- 0.37),
       hml = Finite 4.54, rf = Finite 0.25\<rparr>,
     \<lparr>year = 1927, month = 2, mkt_rf = Finite 4.18, smb = Finite 0.04,
       hml = Finite 2.94, rf = Finite 0.26\<rparr>,
     \<lparr>year = 1927, month = 3, mkt_rf = Finite 0.13, smb = Finite (- 1.65),
       hml = Finite (- 2.61), rf = Finite 0.30\<rparr>,
     \<lparr>year = 1927, month = 4, mkt_rf = Finite 0.46, smb = Finite 0.30,
       hml = Finite 0.81, rf = Finite 0.25\<rparr>,
     \<lparr>year = 1927, month = 5, mkt_rf = Finite 5.44, smb = Finite 1.53,
       hml = Finite 4.73, rf = Finite 0.30\<rparr>,
     \<lparr>year = 1927, month = 6, mkt_rf = Finite (- 2.34), smb = Finite 0.59,
       hml = Finite (- 1.73), rf = Finite 0.26\<rparr>,
     \<lparr>year = 1927, month = 7, mkt_rf = Finite 7.26, smb = Finite (- 3.23),
       hml = Finite (- 1.14), rf = Finite 0.30\<rparr>,
     \<lparr>year = 1927, month = 8, mkt_rf = Finite 1.97, smb = Finite (- 0.73),
       hml = Finite (- 3.78), rf = Finite 0.28\<rparr>,
     \<lparr>year = 1927, month = 9, mkt_rf = Finite 4.76, smb = Finite (- 3.61),
       hml = Finite (- 0.69), rf = Finite 0.21\<rparr>,
     \<lparr>year = 1927, month = 10, mkt_rf = Finite (- 4.31), smb = Finite 2.11,
       hml = Finite (- 4.33), rf = Finite 0.25\<rparr>,
     \<lparr>year = 1927, month = 11, mkt_rf = Finite 6.58, smb = Finite 2.71,
       hml = Finite (- 0.31), rf = Finite 0.21\<rparr>]"

text \<open>
  A file without header lines: the twelve months of 1926 from the first line on, a
  blank line, the annual section and one more row.
\<close>

definition headerless_lines :: "string list" where
  "headerless_lines =
    [''192601,1,0,0,0'',
     ''192602,1,0,0,0'',
     ''192603,1,0,0,0'',
     ''192604,1,0,0,0'',
     ''192605,1,0,0,0'',
     ''192606,1,0,0,0'',
     ''192607,1,0,0,0'',
     ''192608,1,0,0,0'',
     ''192609,1,0,0,0'',
     ''192610,1,0,0,0'',
     ''192611,1,0,0,0'',
     ''192612,1,0,0,0'',
     '''',
     '' Annual Factors: January-December'',
     ''192701,9,9,9,9'']"

definition headerless_raw :: string where
  "headerless_raw = join_lines headerless_lines"

text \<open>A row with a total return of one percent and no other factor.\<close>

definition flat_row :: "int \<Rightarrow> int \<Rightarrow> obs" where
  "flat_row y m =
     \<lparr>year = y, month = m, mkt_rf = Finite 1, smb = Finite 0, hml = Finite 0,
      rf = Finite 0\<rparr>"


text \<open>Eleven months of 1925, a year that the static tables do not have.\<close>

definition y1925_lines :: "string list" where
  "y1925_lines =
    [''192501,1,0,0,0'',
     ''192502,1,0,0,0'',
     ''192503,1,0,0,0'',
     ''192504,1,0,0,0'',
     ''192505,1,0,0,0'',
     ''192506,1,0,0,0'',
     ''192507,1,0,0,0'',
     ''192508,1,0,0,0'',
     ''192509,1,0,0,0'',
     ''192510,1,0,0,0'',
     ''192511,1,0,0,0'']"

definition y1925_raw :: string where
  "y1925_raw = join_lines y1925_lines"

definition y1925_ff :: "obs list" where
  "y1925_ff = map (flat_row 1925) [1, 2, 3, 4, 5, 6, 7, 8, 9, 10, 11]"

section \<open>Grouping and the coverage rule\<close>

lemma map_of_tabulate:
  "map_of (map (\<lambda>k. (k, f k)) ks) y = (if y \<in> set ks then Some (f y) else None)"
  by (induction ks) auto

lemma map_of_groupby_year:
  "map_of (groupby_year df) y =
     (if y \<in> set (map year df) then Some (filter (\<lambda>r. year r = y) df) else None)"
  unfolding groupby_year_def by (simp add: map_of_tabulate)

lemma distinct_groupby_year: "distinct (map fst (groupby_year df))"
  unfolding groupby_year_def by (simp add: comp_def)

lemma map_of_compound_groups:
  "distinct (map fst gs) \<Longrightarrow>
   map_of (compound_groups col gs) y =
     (case map_of gs y of
        None \<Rightarrow> None
      | Some g \<Rightarrow> if length g < 11 then None else Some (compound (map col g)))"
proof (induction gs)
  case Nil
  then show ?case by simp
next
  case (Cons p gs)
  obtain y' g where p: "p = (y', g)" by (cases p)
  from Cons.prems p have notin: "y' \<notin> fst ` set gs" and d: "distinct (map fst gs)"
    by auto
  from notin have none: "map_of gs y' = None"
    by (simp add: map_of_eq_None_iff)
  show ?case
    using Cons.IH [OF d] none by (auto simp: p)
qed

lemma filter_year_empty: "y \<notin> set (map year df) \<Longrightarrow> filter (\<lambda>r. year r = y) df = []"
  by (induction df) auto

lemma map_of_monthly_to_annual:
  "map_of (monthly_to_annual df col) y =
     (if 11 \<le> length (filter (\<lambda>r. year r = y) df)
      then Some (compound (map col (filter (\<lambda>r. year r = y) df)))
      else None)"
  unfolding monthly_to_annual_def
  by (simp add: map_of_compound_groups [OF distinct_groupby_year] map_of_groupby_year
      filter_year_empty)

lemma keys_dom: "keys d = dom (map_of d)"
  by (simp add: keys_def dom_map_of_conv_image_fst)

lemma finite_keys: "finite (keys d)"
  by (simp add: keys_def)

lemma keys_monthly_to_annual:
  "keys (monthly_to_annual df col) = {y. 11 \<le> length (filter (\<lambda>r. year r = y) df)}"
  unfolding keys_dom by (auto simp: dom_def map_of_monthly_to_annual)

lemma sample_count_1927: "length (filter (\<lambda>r. year r = 1927) sample_ff) = 11"
  by code_simp

lemma sample_count_1927_butlast:
  "length (filter (\<lambda>r. year r = 1927) (butlast sample_ff)) = 10"
  by code_simp

text \<open>
  Claim C3. A year is a key of the annual series exactly when the frame has at least
  11 rows of that year; a year with fewer rows has no entry at all, and a year with
  enough rows has the compounded value of its rows.
\<close>

theorem coverage_rule:
  "(y \<in> keys (monthly_to_annual df col)) = (11 \<le> length (filter (\<lambda>r. year r = y) df)) \<and>
   map_of (monthly_to_annual df col) y =
     (if length (filter (\<lambda>r. year r = y) df) < 11 then None
      else Some (compound (map col (filter (\<lambda>r. year r = y) df))))"
  by (simp add: keys_monthly_to_annual map_of_monthly_to_annual)

theorem coverage_rule_witness:
  "1927 \<in> keys (monthly_to_annual sample_ff mkt_total) \<and>
   length (filter (\<lambda>r. year r = 1927) sample_ff) = 11 \<and>
   1927 \<notin> keys (monthly_to_annual (butlast sample_ff) mkt_total) \<and>
   length (filter (\<lambda>r. year r = 1927) (butlast sample_ff)) = 10 \<and>
   map_of (monthly_to_annual (butlast sample_ff) mkt_total) 1927 = None"
  using coverage_rule [of 1927 sample_ff mkt_total]
    coverage_rule [of 1927 "butlast sample_ff" mkt_total]
  by (simp add: sample_count_1927 sample_count_1927_butlast)

section \<open>Compounding\<close>

lemma compound_fold_finite:
  "foldl (\<lambda>cum r. fmul cum (fadd (Finite 1) (fdiv r 100))) (Finite c) (map Finite rs) =
     Finite (c * (\<Prod>r\<leftarrow>rs. 1 + r / 100))"
  by (induction rs arbitrary: c) (simp_all add: fdiv_def mult.assoc)

lemma compound_finite:
  "compound (map Finite rs) =
     Finite (of_int (round_half_even (((\<Prod>r\<leftarrow>rs. 1 + r / 100) - 1) * 100 * 10 ^ 2)) / 10 ^ 2)"
  by (simp add: compound_def compound_fold_finite fsub_def)






section \<open>The boundaries of the monthly block\<close>

lemma scan_lines_started_fst: "fst (scan_lines i ls (Some s)) = Some s"
  by (induction ls arbitrary: i) (auto simp: Let_def)

lemma scan_lines_fst_None:
  "fst (scan_lines i ls None) =
     (if \<exists>l \<in> set ls. is_start_line l
      then Some (i + length (takeWhile (\<lambda>l. \<not> is_start_line l) ls)) else None)"
proof (induction ls arbitrary: i)
  case Nil
  then show ?case by simp
next
  case (Cons l ls)
  show ?case
  proof (cases "is_start_line l")
    case True
    then show ?thesis by (simp add: scan_lines_started_fst)
  next
    case False
    then show ?thesis using Cons.IH [of "Suc i"] by simp
  qed
qed

lemma scan_lines_zero_snd: "snd (scan_lines i ls (Some 0)) = None"
  by (induction ls arbitrary: i) (auto simp: Let_def)

lemma scan_lines_started_None:
  "s \<noteq> 0 \<Longrightarrow>
   (snd (scan_lines i ls (Some s)) = None) =
     (\<forall>k<length ls. \<not> (is_end_line (ls ! k) \<and> s + 10 < i + k))"
proof (induction ls arbitrary: i)
  case Nil
  then show ?case by simp
next
  case (Cons l ls)
  show ?case
  proof (cases "is_end_line l \<and> s + 10 < i")
    case True
    then show ?thesis using Cons.prems by auto
  next
    case False
    have "(\<forall>k<length (l # ls). \<not> (is_end_line ((l # ls) ! k) \<and> s + 10 < i + k)) =
          (\<forall>k<length ls. \<not> (is_end_line (ls ! k) \<and> s + 10 < Suc i + k))"
      using False by (auto simp: nth_Cons' less_Suc_eq_0_disj)
    then show ?thesis using False Cons.IH [OF Cons.prems, of "Suc i"] Cons.prems by auto
  qed
qed

lemma scan_lines_started_Some:
  "s \<noteq> 0 \<Longrightarrow> snd (scan_lines i ls (Some s)) = Some e \<Longrightarrow>
   \<exists>k<length ls. e = i + k \<and> is_end_line (ls ! k) \<and> s + 10 < e \<and>
      (\<forall>j<k. \<not> (is_end_line (ls ! j) \<and> s + 10 < i + j))"
proof (induction ls arbitrary: i)
  case Nil
  then show ?case by simp
next
  case (Cons l ls)
  show ?case
  proof (cases "is_end_line l \<and> s + 10 < i")
    case True
    with Cons.prems have "e = i" by auto
    with True show ?thesis by (intro exI [of _ 0]) auto
  next
    case False
    with Cons.prems have "snd (scan_lines (Suc i) ls (Some s)) = Some e" by auto
    from Cons.IH [OF Cons.prems(1) this] obtain k where k: "k < length ls" "e = Suc i + k"
      "is_end_line (ls ! k)" "s + 10 < e" "\<forall>j<k. \<not> (is_end_line (ls ! j) \<and> s + 10 < Suc i + j)"
      by blast
    show ?thesis
    proof (intro exI [of _ "Suc k"] conjI allI impI)
      fix j assume "j < Suc k"
      then show "\<not> (is_end_line ((l # ls) ! j) \<and> s + 10 < i + j)"
        using False k(5) by (cases j) auto
    qed (use k in auto)
  qed
qed

text \<open>From the first start line on, the scan goes on with the start index fixed.\<close>

lemma scan_lines_prefix:
  "\<forall>x \<in> set pre. \<not> is_start_line x \<Longrightarrow> is_start_line l \<Longrightarrow>
   scan_lines i (pre @ l # post) None =
     scan_lines (Suc (i + length pre)) post (Some (i + length pre))"
proof (induction pre arbitrary: i)
  case Nil
  then show ?case by simp
next
  case (Cons x pre)
  then show ?case using Cons.IH [of "Suc i"] by simp
qed

lemma first_index_takeWhile:
  assumes "\<exists>l \<in> set ls. \<not> P l"
  shows "(s = length (takeWhile P ls)) =
         (s < length ls \<and> \<not> P (ls ! s) \<and> (\<forall>j<s. P (ls ! j)))"
proof
  assume s: "s = length (takeWhile P ls)"
  from assms have "takeWhile P ls \<noteq> ls"
    by (simp add: takeWhile_eq_all_conv)
  then have lt: "length (takeWhile P ls) < length ls"
    by (metis length_takeWhile_le le_neq_implies_less takeWhile_eq_take take_all_iff order_refl)
  have "\<forall>j<s. P (ls ! j)"
  proof (intro allI impI)
    fix j assume "j < s"
    then have "takeWhile P ls ! j \<in> set (takeWhile P ls)" using s by simp
    then have "P (takeWhile P ls ! j)" by (rule set_takeWhileD [THEN conjunct2])
    then show "P (ls ! j)" using \<open>j < s\<close> s by (simp add: takeWhile_nth)
  qed
  then show "s < length ls \<and> \<not> P (ls ! s) \<and> (\<forall>j<s. P (ls ! j))"
    using lt s nth_length_takeWhile [OF lt] by simp
next
  assume a: "s < length ls \<and> \<not> P (ls ! s) \<and> (\<forall>j<s. P (ls ! j))"
  then have ge: "s \<le> length (takeWhile P ls)"
    by (intro length_takeWhile_less_P_nth) auto
  have "\<not> s < length (takeWhile P ls)"
  proof
    assume lt: "s < length (takeWhile P ls)"
    then have "takeWhile P ls ! s \<in> set (takeWhile P ls)" by simp
    then have "P (takeWhile P ls ! s)" by (rule set_takeWhileD [THEN conjunct2])
    then have "P (ls ! s)" using lt by (simp add: takeWhile_nth)
    with a show False by simp
  qed
  with ge show "s = length (takeWhile P ls)" by simp
qed

lemma scan_lines_start:
  "(fst (scan_lines 0 lines None) = Some s) =
     (s < length lines \<and> is_start_line (lines ! s) \<and> (\<forall>j<s. \<not> is_start_line (lines ! j)))"
proof (cases "\<exists>l \<in> set lines. is_start_line l")
  case True
  then have ex: "\<exists>l \<in> set lines. \<not> (\<lambda>l. \<not> is_start_line l) l" by simp
  show ?thesis
    using first_index_takeWhile [OF ex, of s] True
    by (simp add: scan_lines_fst_None eq_commute)
next
  case False
  then show ?thesis by (auto simp: scan_lines_fst_None)
qed

lemma scan_lines_no_start:
  "(fst (scan_lines 0 lines None) = None) = (\<forall>l \<in> set lines. \<not> is_start_line l)"
  by (simp add: scan_lines_fst_None)

lemma download_ValueError:
  "(download_french_factors raw = Inl ValueError) =
     (\<forall>l \<in> set (split_on (CHR 0x0A) raw). \<not> is_start_line l)"
proof -
  obtain s e where se: "scan_lines 0 (split_on (CHR 0x0A) raw) None = (s, e)"
    by (cases "scan_lines 0 (split_on (CHR 0x0A) raw) None")
  then have "s = fst (scan_lines 0 (split_on (CHR 0x0A) raw) None)" by simp
  then have "(s = None) = (\<forall>l \<in> set (split_on (CHR 0x0A) raw). \<not> is_start_line l)"
    by (simp add: scan_lines_no_start)
  then show ?thesis
    by (auto simp: download_french_factors_def Let_def se split: option.splits)
qed

text \<open>The whole result of the scan, from the first start line.\<close>

lemma scan_lines_decompose:
  assumes "fst (scan_lines 0 lines None) = Some s"
  shows "scan_lines 0 lines None =
           (Some s, snd (scan_lines (Suc s) (drop (Suc s) lines) (Some s)))"
proof -
  from assms have s: "s < length lines" "is_start_line (lines ! s)"
    "\<forall>j<s. \<not> is_start_line (lines ! j)"
    by (simp_all add: scan_lines_start)
  have split: "lines = take s lines @ lines ! s # drop (Suc s) lines"
    using s(1) by (simp add: id_take_nth_drop)
  have pre: "\<forall>x \<in> set (take s lines). \<not> is_start_line x"
    using s(1,3) by (auto simp: in_set_conv_nth)
  have "scan_lines 0 (take s lines @ lines ! s # drop (Suc s) lines) None =
        scan_lines (Suc (0 + length (take s lines))) (drop (Suc s) lines)
          (Some (0 + length (take s lines)))"
    by (rule scan_lines_prefix [OF pre s(2)])
  then have "scan_lines 0 lines None = scan_lines (Suc s) (drop (Suc s) lines) (Some s)"
    using split s(1) by (simp add: min_def)
  then show ?thesis
    by (simp add: prod_eq_iff scan_lines_started_fst)
qed

lemma scan_lines_first_line_start:
  "scan_lines 0 lines None = (Some 0, e) \<Longrightarrow> e = None"
  using scan_lines_decompose [of lines 0] by (simp add: scan_lines_zero_snd)

lemma scan_lines_end:
  assumes "scan_lines 0 lines None = (Some s, e)" and "s \<noteq> 0"
  shows "(e = None) = (\<forall>j<length lines. s + 10 < j \<longrightarrow> \<not> is_end_line (lines ! j))"
    and "e = Some k \<Longrightarrow> k < length lines \<and> s + 10 < k \<and> is_end_line (lines ! k) \<and>
           (\<forall>j<k. s + 10 < j \<longrightarrow> \<not> is_end_line (lines ! j))"
proof -
  from assms(1) have f: "fst (scan_lines 0 lines None) = Some s" by simp
  then have s: "s < length lines" by (simp add: scan_lines_start)
  from scan_lines_decompose [OF f] assms(1)
  have e: "e = snd (scan_lines (Suc s) (drop (Suc s) lines) (Some s))" by simp
  have "(e = None) =
        (\<forall>k<length (drop (Suc s) lines). \<not> (is_end_line (drop (Suc s) lines ! k) \<and> s + 10 < Suc s + k))"
    unfolding e by (rule scan_lines_started_None [OF assms(2)])
  also have "\<dots> = (\<forall>j<length lines. s + 10 < j \<longrightarrow> \<not> is_end_line (lines ! j))"
  proof (intro iffI allI impI)
    fix j assume a: "\<forall>k<length (drop (Suc s) lines). \<not> (is_end_line (drop (Suc s) lines ! k) \<and> s + 10 < Suc s + k)"
      and j: "j < length lines" "s + 10 < j"
    then have "j - Suc s < length (drop (Suc s) lines)" by simp
    with a have "\<not> (is_end_line (drop (Suc s) lines ! (j - Suc s)) \<and> s + 10 < Suc s + (j - Suc s))"
      by blast
    then show "\<not> is_end_line (lines ! j)" using j s by simp
  next
    fix k assume a: "\<forall>j<length lines. s + 10 < j \<longrightarrow> \<not> is_end_line (lines ! j)"
      and k: "k < length (drop (Suc s) lines)"
    then have "Suc s + k < length lines" by simp
    with a have "s + 10 < Suc s + k \<longrightarrow> \<not> is_end_line (lines ! (Suc s + k))" by blast
    then show "\<not> (is_end_line (drop (Suc s) lines ! k) \<and> s + 10 < Suc s + k)"
      using s by auto
  qed
  finally show "(e = None) = (\<forall>j<length lines. s + 10 < j \<longrightarrow> \<not> is_end_line (lines ! j))" .
next
  assume ek: "e = Some k"
  from assms(1) have f: "fst (scan_lines 0 lines None) = Some s" by simp
  then have s: "s < length lines" by (simp add: scan_lines_start)
  from scan_lines_decompose [OF f] assms(1) ek
  have "snd (scan_lines (Suc s) (drop (Suc s) lines) (Some s)) = Some k" by simp
  from scan_lines_started_Some [OF assms(2) this]
  obtain m where m: "m < length (drop (Suc s) lines)" "k = Suc s + m"
    "is_end_line (drop (Suc s) lines ! m)" "s + 10 < k"
    "\<forall>j<m. \<not> (is_end_line (drop (Suc s) lines ! j) \<and> s + 10 < Suc s + j)"
    by blast
  have "\<forall>j<k. s + 10 < j \<longrightarrow> \<not> is_end_line (lines ! j)"
  proof (intro allI impI)
    fix j assume j: "j < k" "s + 10 < j"
    then have "j - Suc s < m" using m(2) by simp
    with m(5) have "\<not> (is_end_line (drop (Suc s) lines ! (j - Suc s)) \<and> s + 10 < Suc s + (j - Suc s))"
      by blast
    then show "\<not> is_end_line (lines ! j)" using j s m(1,2) by simp
  qed
  then show "k < length lines \<and> s + 10 < k \<and> is_end_line (lines ! k) \<and>
           (\<forall>j<k. s + 10 < j \<longrightarrow> \<not> is_end_line (lines ! j))"
    using m s by simp
qed

lemma block_begins_at_start:
  assumes "scan_lines 0 lines None = (Some s, e)"
  shows "monthly_lines lines s e \<noteq> [] \<and> hd (monthly_lines lines s e) = lines ! s"
proof -
  from assms have "fst (scan_lines 0 lines None) = Some s" by simp
  then have s: "s < length lines" by (simp add: scan_lines_start)
  show ?thesis
  proof (cases e)
    case None
    then show ?thesis
      using s by (simp add: monthly_lines_def slice_def hd_drop_conv_nth)
  next
    case (Some k)
    with assms scan_lines_first_line_start [of lines e] have "s \<noteq> 0" by auto
    from scan_lines_end(2) [OF assms this Some] have k: "k < length lines" "s + 10 < k"
      by simp_all
    then show ?thesis
      using s Some by (simp add: monthly_lines_def slice_def hd_drop_conv_nth)
  qed
qed

text \<open>
  Claim C4, as amended. The start of the block is the first line that, without its
  leading white space, starts with 192 and that contains a comma; the block begins
  with that line; and the run fails with the \<^verbatim>\<open>ValueError\<close> of line 50 exactly
  when no line of the text is such a line.
\<close>

theorem block_start:
  "(fst (scan_lines 0 lines None) = Some s) =
     (s < length lines \<and> is_start_line (lines ! s) \<and> (\<forall>j<s. \<not> is_start_line (lines ! j))) \<and>
   (download_french_factors raw = Inl ValueError) =
     (\<forall>l \<in> set (split_on (CHR 0x0A) raw). \<not> is_start_line l) \<and>
   (scan_lines 0 lines None = (Some s, e) \<longrightarrow>
      monthly_lines lines s e \<noteq> [] \<and> hd (monthly_lines lines s e) = lines ! s)"
  using scan_lines_start [of lines s] download_ValueError [of raw]
    block_begins_at_start [of lines s e]
  by blast

lemma two_lines_scan:
  "scan_lines 0 [''Monthly factors'', ''192612,1,2,3,4''] None = (Some 1, None)"
  by code_simp

lemma no_data_lines: "split_on (CHR 0x0A) ''no data, no rows'' = [''no data, no rows'']"
  by code_simp

lemma no_data_not_start: "\<not> is_start_line ''no data, no rows''"
  by code_simp

theorem block_start_witness:
  "scan_lines 0 [''Monthly factors'', ''192612,1,2,3,4''] None = (Some 1, None) \<and>
   is_start_line ([''Monthly factors'', ''192612,1,2,3,4''] ! 1) \<and>
   \<not> is_start_line ([''Monthly factors'', ''192612,1,2,3,4''] ! 0) \<and>
   hd (monthly_lines [''Monthly factors'', ''192612,1,2,3,4''] 1 None) = ''192612,1,2,3,4'' \<and>
   download_french_factors ''no data, no rows'' = Inl ValueError"
proof -
  note t = block_start [of "[''Monthly factors'', ''192612,1,2,3,4'']" 1
      "''no data, no rows''" None]
  have f: "fst (scan_lines 0 [''Monthly factors'', ''192612,1,2,3,4''] None) = Some 1"
    by (simp only: two_lines_scan fst_conv)
  from t f have p: "is_start_line ([''Monthly factors'', ''192612,1,2,3,4''] ! 1) \<and>
      (\<forall>j<1. \<not> is_start_line ([''Monthly factors'', ''192612,1,2,3,4''] ! j))"
    by blast
  from t two_lines_scan
  have h: "hd (monthly_lines [''Monthly factors'', ''192612,1,2,3,4''] 1 None) =
           [''Monthly factors'', ''192612,1,2,3,4''] ! 1"
    by blast
  have "\<forall>l \<in> set (split_on (CHR 0x0A) ''no data, no rows''). \<not> is_start_line l"
    by (simp add: no_data_lines no_data_not_start)
  with t have v: "download_french_factors ''no data, no rows'' = Inl ValueError"
    by blast
  from two_lines_scan p h v show ?thesis
    by simp
qed

text \<open>
  The claim as stated fails: a text whose only line starts with 19 and has a comma
  satisfies the start condition of the claim, and the run fails with the error.
\<close>

theorem block_start_counterexample:
  "spec_is_start_line ''193001,1.0,2.0,3.0,4.0'' \<and>
   download_french_factors ''193001,1.0,2.0,3.0,4.0'' = Inl ValueError"
  by code_simp

text \<open>
  When the first line of the text is the start line, the start index is 0, which the
  test of line 45 takes for "no start yet": the end of the block is never found.
\<close>

lemma first_line_start_never_ends:
  "is_start_line l \<Longrightarrow> scan_lines 0 (l # rest) None = (Some 0, None)"
  using scan_lines_started_fst [of 1 rest 0] scan_lines_zero_snd [of 1 rest]
  by (simp add: prod_eq_iff)

lemma headerless_split:
  "split_on (CHR 0x0A) headerless_raw = headerless_lines @ [[]]"
  by code_simp

lemma headerless_scan: "scan_lines 0 (headerless_lines @ [[]]) None = (Some 0, None)"
  by code_simp

lemma headerless_blank: "is_end_line ((headerless_lines @ [[]]) ! 12)"
  by code_simp

lemma headerless_rows:
  "map (\<lambda>r. (year r, month r)) (parse_records (headerless_lines @ [[]])) =
     [(1926, 1), (1926, 2), (1926, 3), (1926, 4), (1926, 5), (1926, 6), (1926, 7),
      (1926, 8), (1926, 9), (1926, 10), (1926, 11), (1926, 12), (1927, 1)]"
  by code_simp

text \<open>
  Claim C5, at the failing input. The text has no header line, twelve rows, a blank
  line at index 12 (more than ten lines after the start), the annual section and one
  more row. The scan finds no end, the block is the whole text, and the row after the
  annual section is read as a thirteenth month.
\<close>

theorem headerless_block_never_ends:
  "scan_lines 0 (split_on (CHR 0x0A) headerless_raw) None = (Some 0, None) \<and>
   is_end_line (split_on (CHR 0x0A) headerless_raw ! 12) \<and>
   monthly_lines (split_on (CHR 0x0A) headerless_raw) 0 None =
     split_on (CHR 0x0A) headerless_raw \<and>
   map_sum id (map (\<lambda>r. (year r, month r))) (download_french_factors headerless_raw) =
     Inr [(1926, 1), (1926, 2), (1926, 3), (1926, 4), (1926, 5), (1926, 6), (1926, 7),
          (1926, 8), (1926, 9), (1926, 10), (1926, 11), (1926, 12), (1927, 1)]"
proof -
  have m: "monthly_lines (headerless_lines @ [[]]) 0 None = headerless_lines @ [[]]"
    by (simp add: monthly_lines_def slice_def)
  have "parse_records (headerless_lines @ [[]]) \<noteq> []"
    using headerless_rows by auto
  then have "download_french_factors headerless_raw =
             Inr (parse_records (headerless_lines @ [[]]))"
    by (simp add: download_french_factors_def headerless_split headerless_scan m)
  then show ?thesis
    by (simp add: headerless_split headerless_scan headerless_blank m headerless_rows)
qed

lemma sample_scan: "scan_lines 0 (sample_lines @ [[]]) None = (Some 2, Some 14)"
  by code_simp

lemma sample_blank: "is_end_line ((sample_lines @ [[]]) ! 14)"
  by code_simp

text \<open>
  With at least one line before the start line, the block ends as the specification
  says: at the first line more than ten lines after the start that is blank or holds
  the word Annual, or at the end of the text when there is no such line.
\<close>

theorem block_end_after_header:
  assumes "scan_lines 0 lines None = (Some s, e)" and "s \<noteq> 0"
  shows "(e = None) = (\<forall>j<length lines. s + 10 < j \<longrightarrow> \<not> is_end_line (lines ! j)) \<and>
         (\<forall>k. e = Some k \<longrightarrow>
            k < length lines \<and> s + 10 < k \<and> is_end_line (lines ! k) \<and>
            (\<forall>j<k. s + 10 < j \<longrightarrow> \<not> is_end_line (lines ! j))) \<and>
         monthly_lines lines s e =
           (case e of None \<Rightarrow> drop s lines | Some k \<Rightarrow> drop s (take k lines))"
proof -
  have m: "monthly_lines lines s e =
           (case e of None \<Rightarrow> drop s lines | Some k \<Rightarrow> drop s (take k lines))"
    using scan_lines_end(2) [OF assms]
    by (cases e) (auto simp: monthly_lines_def slice_def)
  show ?thesis
    using scan_lines_end(1) [OF assms] scan_lines_end(2) [OF assms] m by blast
qed

theorem block_end_after_header_witness:
  "scan_lines 0 (sample_lines @ [[]]) None = (Some 2, Some 14) \<and>
   is_end_line ((sample_lines @ [[]]) ! 14) \<and>
   monthly_lines (sample_lines @ [[]]) 2 (Some 14) = drop 2 (take 14 (sample_lines @ [[]]))"
proof -
  have s: "(2::nat) \<noteq> 0" by simp
  show ?thesis
    using block_end_after_header [OF sample_scan s]
    by (simp add: sample_scan sample_blank)
qed

section \<open>Row extraction\<close>


lemma parse_records_filter:
  "parse_records ls = map (\<lambda>l. the (parse_line l)) (filter (\<lambda>l. parse_line l \<noteq> None) ls)"
  by (induction ls) (auto split: option.splits)

lemma parse_records_append: "parse_records (xs @ ys) = parse_records xs @ parse_records ys"
  by (simp add: parse_records_filter)







section \<open>Repeated months\<close>

lemma flat_line: "parse_line ''192701,1,0,0,0'' = Some (flat_row 1927 1)"
  by code_simp

lemma flat_year_count:
  "length (filter (\<lambda>x. year x = year (flat_row 1927 1))
     ([] @ map (flat_row 1927) [2, 3, 4, 5, 6, 7, 8, 9, 10] @ [])) = 9"
  by code_simp

lemma flat_compound:
  "compound
     (map mkt_total (filter (\<lambda>x. year x = year (flat_row 1927 1)) []) @
      mkt_total (flat_row 1927 1) #
      map mkt_total (filter (\<lambda>x. year x = year (flat_row 1927 1))
        (map (flat_row 1927) [2, 3, 4, 5, 6, 7, 8, 9, 10])) @
      mkt_total (flat_row 1927 1) #
      map mkt_total (filter (\<lambda>x. year x = year (flat_row 1927 1)) [])) = Finite 11.57"
  by code_simp

lemma flat_without_repeat:
  "map_of (monthly_to_annual
     (flat_row 1927 1 # map (flat_row 1927) [2, 3, 4, 5, 6, 7, 8, 9, 10]) mkt_total) 1927 = None"
  by code_simp

text \<open>
  Claim C7. When a line that parses stands twice in the block, its row stands twice in
  the records; both rows count in the number of rows of the year that is compared with
  11; and both values are in the list that is compounded, so that the growth factor of
  the month is a factor of the product twice.
\<close>

theorem duplicates_kept:
  assumes "parse_line l = Some r"
  shows "parse_records (xs @ l # ys @ l # zs) =
           parse_records xs @ r # parse_records ys @ r # parse_records zs \<and>
         length (filter (\<lambda>x. year x = year r) (df1 @ r # df2 @ r # df3)) =
           length (filter (\<lambda>x. year x = year r) (df1 @ df2 @ df3)) + 2 \<and>
         map_of (monthly_to_annual (df1 @ r # df2 @ r # df3) col) (year r) =
           (if length (filter (\<lambda>x. year x = year r) (df1 @ df2 @ df3)) + 2 < 11 then None
            else Some (compound
                   (map col (filter (\<lambda>x. year x = year r) df1) @ col r #
                    map col (filter (\<lambda>x. year x = year r) df2) @ col r #
                    map col (filter (\<lambda>x. year x = year r) df3)))) \<and>
         compound (map Finite (as @ v # bs @ v # cs)) =
           Finite (of_int (round_half_even
             (((\<Prod>a\<leftarrow>as. 1 + a / 100) * (1 + v / 100) * (\<Prod>b\<leftarrow>bs. 1 + b / 100) *
               (1 + v / 100) * (\<Prod>c\<leftarrow>cs. 1 + c / 100) - 1) * 100 * 10 ^ 2)) / 10 ^ 2)"
proof -
  have a: "parse_records (xs @ l # ys @ l # zs) =
           parse_records xs @ r # parse_records ys @ r # parse_records zs"
    using assms by (simp add: parse_records_append)
  have b: "length (filter (\<lambda>x. year x = year r) (df1 @ r # df2 @ r # df3)) =
           length (filter (\<lambda>x. year x = year r) (df1 @ df2 @ df3)) + 2"
    by simp
  have c: "map_of (monthly_to_annual (df1 @ r # df2 @ r # df3) col) (year r) =
           (if length (filter (\<lambda>x. year x = year r) (df1 @ df2 @ df3)) + 2 < 11 then None
            else Some (compound
                   (map col (filter (\<lambda>x. year x = year r) df1) @ col r #
                    map col (filter (\<lambda>x. year x = year r) df2) @ col r #
                    map col (filter (\<lambda>x. year x = year r) df3))))"
    unfolding map_of_monthly_to_annual by simp
  have d: "compound (map Finite (as @ v # bs @ v # cs)) =
           Finite (of_int (round_half_even
             (((\<Prod>a\<leftarrow>as. 1 + a / 100) * (1 + v / 100) * (\<Prod>b\<leftarrow>bs. 1 + b / 100) *
               (1 + v / 100) * (\<Prod>c\<leftarrow>cs. 1 + c / 100) - 1) * 100 * 10 ^ 2)) / 10 ^ 2)"
    unfolding compound_finite by (simp add: mult.assoc)
  from a b c d show ?thesis by blast
qed

theorem duplicates_kept_witness:
  "parse_line ''192701,1,0,0,0'' = Some (flat_row 1927 1) \<and>
   parse_records ([] @ ''192701,1,0,0,0'' # [] @ ''192701,1,0,0,0'' # []) =
     parse_records [] @ flat_row 1927 1 # parse_records [] @ flat_row 1927 1 # parse_records [] \<and>
   map_of (monthly_to_annual
      ([] @ flat_row 1927 1 # map (flat_row 1927) [2, 3, 4, 5, 6, 7, 8, 9, 10] @
       flat_row 1927 1 # []) mkt_total) (year (flat_row 1927 1)) = Some (Finite 11.57) \<and>
   map_of (monthly_to_annual
      (flat_row 1927 1 # map (flat_row 1927) [2, 3, 4, 5, 6, 7, 8, 9, 10]) mkt_total) 1927 = None"
proof -
  note t = duplicates_kept [OF flat_line, of "[]" "[]" "[]" "[]"
      "map (flat_row 1927) [2, 3, 4, 5, 6, 7, 8, 9, 10]" "[]" mkt_total]
  from t have a: "parse_records ([] @ ''192701,1,0,0,0'' # [] @ ''192701,1,0,0,0'' # []) =
     parse_records [] @ flat_row 1927 1 # parse_records [] @ flat_row 1927 1 # parse_records []"
    by (rule conjunct1)
  from t have "map_of (monthly_to_annual
      ([] @ flat_row 1927 1 # map (flat_row 1927) [2, 3, 4, 5, 6, 7, 8, 9, 10] @
       flat_row 1927 1 # []) mkt_total) (year (flat_row 1927 1)) =
     (if length (filter (\<lambda>x. year x = year (flat_row 1927 1))
           ([] @ map (flat_row 1927) [2, 3, 4, 5, 6, 7, 8, 9, 10] @ [])) + 2 < 11 then None
      else Some (compound
         (map mkt_total (filter (\<lambda>x. year x = year (flat_row 1927 1)) []) @
          mkt_total (flat_row 1927 1) #
          map mkt_total (filter (\<lambda>x. year x = year (flat_row 1927 1))
            (map (flat_row 1927) [2, 3, 4, 5, 6, 7, 8, 9, 10])) @
          mkt_total (flat_row 1927 1) #
          map mkt_total (filter (\<lambda>x. year x = year (flat_row 1927 1)) []))))"
    by blast
  then have b: "map_of (monthly_to_annual
      ([] @ flat_row 1927 1 # map (flat_row 1927) [2, 3, 4, 5, 6, 7, 8, 9, 10] @
       flat_row 1927 1 # []) mkt_total) (year (flat_row 1927 1)) = Some (Finite 11.57)"
    unfolding flat_year_count flat_compound by simp
  from flat_line a b flat_without_repeat show ?thesis
    by (intro conjI)
qed

section \<open>The assembled document\<close>

lemma main_Inr:
  "main today raw = Inr d \<Longrightarrow>
   \<exists>ff. download_french_factors raw = Inr ff \<and> all_years ff \<noteq> [] \<and> d = data today ff"
  by (auto simp: main_def split: sum.splits if_splits)

lemma keys_derived:
  "keys (small_stocks ff) = keys (large_stocks ff)"
  "keys (tbills ff) = keys (large_stocks ff)"
  by (simp_all add: small_stocks_def large_stocks_def tbills_def keys_monthly_to_annual)

lemma all_years_five:
  "all_years ff = sorted_list_of_set
      (keys (large_stocks ff) \<inter> keys (small_stocks ff) \<inter> keys bonds \<inter> keys (tbills ff)
         \<inter> keys inflation)"
proof -
  have "keys (large_stocks ff) \<inter> keys (small_stocks ff) \<inter> keys bonds \<inter> keys (tbills ff)
         \<inter> keys inflation = keys (large_stocks ff) \<inter> keys bonds \<inter> keys inflation"
    by (auto simp: keys_derived)
  then show ?thesis by (simp add: all_years_def)
qed

text \<open>The sample text, read in steps.\<close>

lemmas parse_eval = parse_line_def strip_def isspace_def py_int_def py_float_def digit_of_def
  isdigit_def digits_value_def lower_def parse_decimal_def parse_exponent_def pow10_def Let_def

lemmas table_eval = keys_def bonds_def inflation_def get_bond_returns_def get_inflation_def

lemma sample_split: "split_on (CHR 0x0A) sample_raw = sample_lines @ [[]]"
  by (simp add: sample_raw_def sample_lines_def join_lines_def)

lemma sample_block:
  "monthly_lines (sample_lines @ [[]]) 2 (Some 14) =
     take 6 (drop 2 sample_lines) @ drop 8 (take 14 sample_lines)"
  by (simp add: monthly_lines_def slice_def sample_lines_def)

lemma sample_rows_first: "parse_records (take 6 (drop 2 sample_lines)) = take 6 sample_ff"
  by (simp add: sample_lines_def sample_ff_def parse_eval)

lemma sample_rows_last: "parse_records (drop 8 (take 14 sample_lines)) = drop 6 sample_ff"
  by (simp add: sample_lines_def sample_ff_def parse_eval)

lemma sample_ff_not_empty: "sample_ff \<noteq> []"
  by (simp add: sample_ff_def)

lemma sample_download: "download_french_factors sample_raw = Inr sample_ff"
proof -
  have "parse_records (monthly_lines (sample_lines @ [[]]) 2 (Some 14)) = sample_ff"
    unfolding sample_block parse_records_append sample_rows_first sample_rows_last
    by (rule append_take_drop_id)
  then show ?thesis
    by (simp add: download_french_factors_def sample_split sample_scan sample_ff_not_empty)
qed

lemma sample_keys: "keys (large_stocks sample_ff) = {1927}"
proof -
  have "(11 \<le> length (filter (\<lambda>r. year r = y) sample_ff)) = (y = 1927)" for y
    by (auto simp: sample_ff_def)
  then show ?thesis
    by (simp add: large_stocks_def keys_monthly_to_annual)
qed

lemma tables_1927: "1927 \<in> keys bonds" "1927 \<in> keys inflation"
  by (simp_all add: table_eval)

lemma sample_all_years: "all_years sample_ff = [1927]"
proof -
  have "keys (large_stocks sample_ff) \<inter> keys bonds \<inter> keys inflation = {1927}"
    using tables_1927 by (auto simp: sample_keys)
  then show ?thesis
    by (simp add: all_years_def)
qed

lemma sample_main: "main ''2026-01-01'' sample_raw = Inr (data ''2026-01-01'' sample_ff)"
  by (simp add: main_def sample_download sample_all_years)

lemma sample_1926: "1926 \<in> keys bonds" "1926 \<in> keys inflation"
  "1926 \<notin> keys (large_stocks sample_ff)"
  by (simp_all add: sample_keys) (simp_all add: table_eval)

text \<open>
  Claim C1. The years of the document are the years that are keys of all five annual
  series, in ascending order and without repetition; a year that one of the five series
  lacks is not among them.
\<close>

theorem year_axis:
  assumes "download_french_factors raw = Inr ff" and "main today raw = Inr d"
  shows "years d = sorted_list_of_set
           (keys (large_stocks ff) \<inter> keys (small_stocks ff) \<inter> keys bonds \<inter>
            keys (tbills ff) \<inter> keys inflation) \<and>
         (\<forall>y. (y \<in> set (years d)) =
            (y \<in> keys (large_stocks ff) \<and> y \<in> keys (small_stocks ff) \<and> y \<in> keys bonds \<and>
             y \<in> keys (tbills ff) \<and> y \<in> keys inflation)) \<and>
         sorted (years d) \<and> distinct (years d)"
proof -
  from main_Inr [OF assms(2)] assms(1) have d: "d = data today ff" by auto
  have y: "years d = all_years ff" by (simp add: d data_def)
  have fin: "finite (keys (large_stocks ff) \<inter> keys (small_stocks ff) \<inter> keys bonds \<inter>
            keys (tbills ff) \<inter> keys inflation)"
    by (simp add: finite_keys)
  show ?thesis
    unfolding y all_years_five using fin by auto
qed

theorem year_axis_witness:
  "download_french_factors sample_raw = Inr sample_ff \<and>
   main ''2026-01-01'' sample_raw = Inr (data ''2026-01-01'' sample_ff) \<and>
   years (data ''2026-01-01'' sample_ff) = sorted_list_of_set
     (keys (large_stocks sample_ff) \<inter> keys (small_stocks sample_ff) \<inter> keys bonds \<inter>
      keys (tbills sample_ff) \<inter> keys inflation) \<and>
   years (data ''2026-01-01'' sample_ff) = [1927] \<and>
   1926 \<in> keys bonds \<and> 1926 \<in> keys inflation \<and> 1926 \<notin> keys (large_stocks sample_ff) \<and>
   1926 \<notin> set (years (data ''2026-01-01'' sample_ff))"
proof -
  note t = year_axis [OF sample_download sample_main]
  from t have a: "years (data ''2026-01-01'' sample_ff) = sorted_list_of_set
     (keys (large_stocks sample_ff) \<inter> keys (small_stocks sample_ff) \<inter> keys bonds \<inter>
      keys (tbills sample_ff) \<inter> keys inflation)"
    by (rule conjunct1)
  have b: "years (data ''2026-01-01'' sample_ff) = [1927]"
    by (simp add: data_def sample_all_years)
  from t sample_1926(3) have c: "1926 \<notin> set (years (data ''2026-01-01'' sample_ff))"
    by blast
  from sample_download sample_main a b sample_1926 c show ?thesis
    by (intro conjI)
qed

text \<open>
  Claim C8. In a document that is written, the returns of each of the five assets are
  as many as the years, and the three monthly arrays are of one length.
\<close>

theorem shape_invariant:
  assumes "main today raw = Inr d"
  shows "(\<forall>a \<in> set (assets d). length (returns (snd a)) = length (years d)) \<and>
         map fst (assets d) =
           [''large_stocks'', ''small_stocks'', ''lt_gov_bonds'', ''tbills'', ''inflation''] \<and>
         length (dates (monthly d)) = length (stocks (monthly d)) \<and>
         length (stocks (monthly d)) = length (bills (monthly d))"
proof -
  from main_Inr [OF assms] obtain ff where d: "d = data today ff" by blast
  show ?thesis
    by (simp add: d data_def monthly_dates_def monthly_stocks_def monthly_tbills_def)
qed

lemma sample_length_years: "length (years (data ''2026-01-01'' sample_ff)) = 1"
  by (simp add: data_def sample_all_years)

lemma sample_length_dates: "length (dates (monthly (data ''2026-01-01'' sample_ff))) = 12"
  by (simp add: data_def monthly_dates_def sort_values_def) (simp add: sample_ff_def)

theorem shape_invariant_witness:
  "main ''2026-01-01'' sample_raw = Inr (data ''2026-01-01'' sample_ff) \<and>
   list_all (\<lambda>a. length (returns (snd a)) = length (years (data ''2026-01-01'' sample_ff)))
     (assets (data ''2026-01-01'' sample_ff)) \<and>
   length (years (data ''2026-01-01'' sample_ff)) = 1 \<and>
   length (dates (monthly (data ''2026-01-01'' sample_ff))) = 12 \<and>
   length (dates (monthly (data ''2026-01-01'' sample_ff))) =
     length (stocks (monthly (data ''2026-01-01'' sample_ff))) \<and>
   length (stocks (monthly (data ''2026-01-01'' sample_ff))) =
     length (bills (monthly (data ''2026-01-01'' sample_ff)))"
proof -
  note t = shape_invariant [OF sample_main]
  from t have a: "list_all
     (\<lambda>a. length (returns (snd a)) = length (years (data ''2026-01-01'' sample_ff)))
     (assets (data ''2026-01-01'' sample_ff))"
    unfolding list_all_iff by (rule conjunct1)
  from t have b: "length (dates (monthly (data ''2026-01-01'' sample_ff))) =
     length (stocks (monthly (data ''2026-01-01'' sample_ff)))"
    by blast
  from t have c: "length (stocks (monthly (data ''2026-01-01'' sample_ff))) =
     length (bills (monthly (data ''2026-01-01'' sample_ff)))"
    by blast
  from sample_main a sample_length_years sample_length_dates b c show ?thesis
    by (intro conjI)
qed

lemma y1925_split: "split_on (CHR 0x0A) y1925_raw = y1925_lines @ [[]]"
  by (simp add: y1925_raw_def y1925_lines_def join_lines_def)

lemma y1925_scan: "scan_lines 0 (y1925_lines @ [[]]) None = (Some 0, None)"
  by (simp add: y1925_lines_def first_line_start_never_ends is_start_line_def strip_def
      isspace_def startswith_def)

lemma y1925_rows: "parse_records (y1925_lines @ [[]]) = y1925_ff"
  by (simp add: y1925_lines_def y1925_ff_def flat_row_def parse_eval)

lemma y1925_download: "download_french_factors y1925_raw = Inr y1925_ff"
proof -
  have "y1925_ff \<noteq> []" by (simp add: y1925_ff_def)
  then show ?thesis
    by (simp add: download_french_factors_def y1925_split y1925_scan monthly_lines_def
        slice_def y1925_rows)
qed

lemma y1925_keys: "keys (large_stocks y1925_ff) = {1925}"
proof -
  have "(11 \<le> length (filter (\<lambda>r. year r = y) y1925_ff)) = (y = 1925)" for y
    by (auto simp: y1925_ff_def flat_row_def)
  then show ?thesis
    by (simp add: large_stocks_def keys_monthly_to_annual)
qed

lemma tables_1925: "1925 \<notin> keys bonds"
  by (simp add: table_eval)

lemma y1925_no_common_year:
  "keys (large_stocks y1925_ff) \<inter> keys (small_stocks y1925_ff) \<inter> keys bonds \<inter>
   keys (tbills y1925_ff) \<inter> keys inflation = {}"
  using tables_1925 by (auto simp: y1925_keys)

text \<open>
  Claim C9. When no year is a key of all five series, line 178 raises
  \<^verbatim>\<open>IndexError\<close> and the run ends before the document is built or written; a
  document that is written never has an empty list of years.
\<close>

theorem empty_axis_fatal:
  assumes "download_french_factors raw = Inr ff"
    and "keys (large_stocks ff) \<inter> keys (small_stocks ff) \<inter> keys bonds \<inter>
         keys (tbills ff) \<inter> keys inflation = {}"
  shows "main today raw = Inl IndexError \<and> (\<forall>t r d. main t r = Inr d \<longrightarrow> years d \<noteq> [])"
proof -
  have "all_years ff = []"
    unfolding all_years_five assms(2) by simp
  then have a: "main today raw = Inl IndexError"
    by (simp add: main_def assms(1))
  have "years d \<noteq> []" if "main t r = Inr d" for t r d
    using main_Inr [OF that] by (auto simp: data_def)
  with a show ?thesis by blast
qed

theorem empty_axis_fatal_witness:
  "download_french_factors y1925_raw = Inr y1925_ff \<and>
   keys (large_stocks y1925_ff) = {1925} \<and>
   keys (large_stocks y1925_ff) \<inter> keys (small_stocks y1925_ff) \<inter> keys bonds \<inter>
     keys (tbills y1925_ff) \<inter> keys inflation = {} \<and>
   main ''2026-01-01'' y1925_raw = Inl IndexError"
proof -
  from empty_axis_fatal [OF y1925_download y1925_no_common_year, of "''2026-01-01''"]
  have "main ''2026-01-01'' y1925_raw = Inl IndexError"
    by (rule conjunct1)
  with y1925_download y1925_keys y1925_no_common_year show ?thesis
    by (intro conjI)
qed







end
